theory Spec2Isabelle
  imports Complex_Main "HOL-Library.Stream" "HOL-Library.Word"
begin

unbundle bit_operations_syntax

section \<open>JobPacker: the settings store and the export converter\<close>

text \<open>
  A shallow embedding of \<^verbatim>\<open>jobpacker.py\<close>: \<^verbatim>\<open>load_config\<close>, \<^verbatim>\<open>save_config\<close> and
  \<^verbatim>\<open>export_jobs\<close>. Python values are tagged unions, dictionaries with string keys are
  maps, every exception the interpreter can raise on a modelled path is a value of
  \<open>pyerror\<close> and a call that may raise returns \<open>pyerror + 'a\<close> (\<open>Inl\<close> the exception).
  A text is a list of code points; the code points covered are those of HOL's \<open>char\<close>
  (0 to 255, the Latin-1 block of Unicode), so \<open>take\<close> and \<open>length\<close> count what
  Python's \<^verbatim>\<open>str\<close> counts.
\<close>

subsection \<open>Exceptions\<close>

datatype pyerror =
    TypeError | ValueError | OverflowError | JSONDecodeError | IOError
  | UnicodeDecodeError | RecursionError

text \<open>
  \<^verbatim>\<open>isinstance(e, cls)\<close> for the classes above: \<^verbatim>\<open>json.JSONDecodeError\<close> and
  \<^verbatim>\<open>UnicodeDecodeError\<close> are subclasses of \<^verbatim>\<open>ValueError\<close>; the others are unrelated
  (\<^verbatim>\<open>RecursionError\<close> is a \<^verbatim>\<open>RuntimeError\<close>). An \<^verbatim>\<open>except (A, B)\<close> clause catches an
  exception that is an instance of a listed class.
\<close>

definition isinstance :: "pyerror \<Rightarrow> pyerror \<Rightarrow> bool" where
  "isinstance e cls =
     (e = cls \<or> ((e = JSONDecodeError \<or> e = UnicodeDecodeError) \<and> cls = ValueError))"

definition catches :: "pyerror list \<Rightarrow> pyerror \<Rightarrow> bool" where
  "catches classes e = list_ex (isinstance e) classes"

definition and_then :: "pyerror + 'a \<Rightarrow> ('a \<Rightarrow> pyerror + 'b) \<Rightarrow> pyerror + 'b" where
  "and_then r k = (case r of Inl e \<Rightarrow> Inl e | Inr x \<Rightarrow> k x)"

subsection \<open>Floats and JSON values\<close>

text \<open>
  A Python float is not-a-number, an infinity, or finite; a finite float is given by its
  exact value (every double is a real number). What \<^verbatim>\<open>json.load\<close> returns, and what
  \<^verbatim>\<open>json.dump\<close> accepts, is a JSON value; an object is a Python \<^verbatim>\<open>dict\<close> with string
  keys, compared as Python compares dicts (key by key, whatever the order).
\<close>

datatype pyfloat = NaN | PosInf | NegInf | Finite real

datatype json =
    JNull
  | JBool bool
  | JInt int
  | JFloat pyfloat
  | JStr string
  | JArr "json list"
  | JObj "string \<Rightarrow> json option"

type_synonym config = "string \<rightharpoonup> json"

subsection \<open>The settings store\<close>

text \<open>
  \<^verbatim>\<open>DEFAULT_CONFIG\<close>, with its keys in the source's order.
\<close>

definition recognized_keys :: "string list" where
  "recognized_keys =
     [''default_search'', ''default_location'', ''results_per_site'',
      ''remote_only'', ''job_type'', ''job_boards'']"

definition DEFAULT_CONFIG :: config where
  "DEFAULT_CONFIG = map_of
     [(''default_search'', JStr ''''),
      (''default_location'', JStr ''USA''),
      (''results_per_site'', JInt 15),
      (''remote_only'', JBool False),
      (''job_type'', JNull),
      (''job_boards'',
         JArr [JStr ''indeed'', JStr ''linkedin'', JStr ''glassdoor'',
               JStr ''zip_recruiter'', JStr ''google''])]"

text \<open>
  What \<^verbatim>\<open>CONFIG_PATH\<close> names on disk, as far as \<^verbatim>\<open>load_config\<close> can tell the cases
  apart:
  \<^item> \<open>NoFile\<close>: nothing (\<^verbatim>\<open>CONFIG_PATH.exists()\<close> is false);
  \<^item> \<open>Unreadable\<close>: something \<^verbatim>\<open>open\<close> refuses with an \<^verbatim>\<open>IOError\<close> (a directory, a file the
    process has no permission on);
  \<^item> \<open>UndecodableFile\<close>: bytes that are no text in the encoding \<^verbatim>\<open>open\<close> reads with (the
    bytes \<^verbatim>\<open>80 81 FE FF\<close> under UTF-8), on which \<^verbatim>\<open>json.load\<close>, reading the file, raises
    \<^verbatim>\<open>UnicodeDecodeError\<close>;
  \<^item> \<open>DeepFile\<close>: a JSON text nested deeper than the interpreter's recursion limit allows
    (a hundred thousand \<^verbatim>\<open>[\<close>), on which \<^verbatim>\<open>json.load\<close> raises \<^verbatim>\<open>RecursionError\<close>;
  \<^item> \<open>EmptyFile\<close>: a file of length zero, on which \<^verbatim>\<open>json.load\<close> raises
    \<^verbatim>\<open>JSONDecodeError\<close>;
  \<^item> \<open>CorruptFile\<close>: a text that is not a JSON document (\<^verbatim>\<open>{ invalid json }\<close>), on which
    \<^verbatim>\<open>json.load\<close> raises \<^verbatim>\<open>JSONDecodeError\<close>;
  \<^item> \<open>JsonFile j\<close>: a text that \<^verbatim>\<open>json.load\<close> decodes to the value \<open>j\<close>.
\<close>

datatype config_file =
    NoFile | Unreadable | UndecodableFile | DeepFile | EmptyFile | CorruptFile | JsonFile json

fun path_exists :: "config_file \<Rightarrow> bool" where
  "path_exists NoFile = False"
| "path_exists _ = True"

text \<open>\<^verbatim>\<open>with open(CONFIG_PATH, "r") as f: config = json.load(f)\<close>\<close>

fun json_load :: "config_file \<Rightarrow> pyerror + json" where
  "json_load NoFile = Inl IOError"
| "json_load Unreadable = Inl IOError"
| "json_load UndecodableFile = Inl UnicodeDecodeError"
| "json_load DeepFile = Inl RecursionError"
| "json_load EmptyFile = Inl JSONDecodeError"
| "json_load CorruptFile = Inl JSONDecodeError"
| "json_load (JsonFile j) = Inr j"

text \<open>
  \<^verbatim>\<open>{**d, **config}\<close>: the keys of \<open>d\<close>, then those of \<open>config\<close>, a later value
  replacing an earlier one. Unpacking with \<^verbatim>\<open>**\<close> needs a mapping; on any other value
  (a list, a string, a number, \<^verbatim>\<open>None\<close>) the interpreter raises \<^verbatim>\<open>TypeError\<close>.
\<close>

fun unpack_over :: "config \<Rightarrow> json \<Rightarrow> pyerror + config" where
  "unpack_over d (JObj m) = Inr (d ++ m)"
| "unpack_over d _ = Inl TypeError"

text \<open>
  \<^verbatim>\<open>load_config\<close>: the \<^verbatim>\<open>try\<close> block is \<open>json_load\<close> followed by the merge; the handler
  \<^verbatim>\<open>except (json.JSONDecodeError, IOError): pass\<close> falls through to
  \<^verbatim>\<open>return DEFAULT_CONFIG.copy()\<close>; any other exception leaves the function.
\<close>

definition load_config :: "config_file \<Rightarrow> pyerror + config" where
  "load_config f =
     (if path_exists f then
        (case and_then (json_load f) (unpack_over DEFAULT_CONFIG) of
           Inr merged \<Rightarrow> Inr merged
         | Inl e \<Rightarrow>
             if catches [JSONDecodeError, IOError] e then Inr DEFAULT_CONFIG else Inl e)
      else Inr DEFAULT_CONFIG)"



definition is_object :: "json \<Rightarrow> bool" where
  "is_object j = (case j of JObj m \<Rightarrow> True | _ \<Rightarrow> False)"

definition has_key :: "pyerror + config \<Rightarrow> string \<Rightarrow> bool" where
  "has_key r k = (case r of Inl e \<Rightarrow> False | Inr c \<Rightarrow> c k \<noteq> None)"


section \<open>The export converter\<close>

subsection \<open>Raw values\<close>

text \<open>
  The values a raw job record holds: \<^verbatim>\<open>None\<close>, a \<^verbatim>\<open>bool\<close>, an \<^verbatim>\<open>int\<close>, a
  \<^verbatim>\<open>float\<close>, a \<^verbatim>\<open>str\<close> or a \<^verbatim>\<open>datetime.date\<close>. A float is one of \<open>pyfloat\<close> or the
  negative zero, which has the value of \<open>Finite 0\<close> and another \<^verbatim>\<open>repr\<close>.
\<close>

record caldate =
  year :: nat
  month :: nat
  day :: nat

datatype pyval =
    PNone
  | PBool bool
  | PInt int
  | PFloat pyfloat
  | PNegZero
  | PStr string
  | PDate caldate

text \<open>
  Three built-ins are taken as they are, without a model of their grammar: how
  \<^verbatim>\<open>float\<close> and \<^verbatim>\<open>int\<close> read a text (\<open>None\<close> where they raise \<^verbatim>\<open>ValueError\<close>),
  and the \<^verbatim>\<open>repr\<close> of a finite float other than the negative zero. Every definition
  below that calls one of them takes the record as its first argument, and every theorem
  holds whatever the three functions are.
\<close>

record builtins =
  float_of_text :: "string \<Rightarrow> pyfloat option"
  int_of_text :: "string \<Rightarrow> int option"
  repr_float :: "real \<Rightarrow> string"

subsection \<open>Numbers as text\<close>

definition digit_char :: "nat \<Rightarrow> char" where
  "digit_char d = ''0123456789'' ! d"

fun decimal :: "nat \<Rightarrow> string" where
  "decimal n = (if n < 10 then [digit_char n] else decimal (n div 10) @ [digit_char (n mod 10)])"

declare decimal.simps [simp del]

text \<open>\<^verbatim>\<open>str(n)\<close> for an \<^verbatim>\<open>int\<close>.\<close>

definition str_int :: "int \<Rightarrow> string" where
  "str_int n = (if n < 0 then ''-'' @ decimal (nat (- n)) else decimal (nat n))"

text \<open>\<^verbatim>\<open>'%0wd' % n\<close>: the decimal digits, zeros on the left up to width \<open>w\<close>.\<close>

definition zero_pad :: "nat \<Rightarrow> nat \<Rightarrow> string" where
  "zero_pad w n = replicate (w - length (decimal n)) (CHR ''0'') @ decimal n"

text \<open>
  \<^verbatim>\<open>f"{n:,}"\<close>: the sign, then the digits in groups of three from the right, a comma
  between groups. \<open>group3\<close> works on the digits in reverse.
\<close>

fun group3 :: "string \<Rightarrow> string" where
  "group3 (a # b # c # d # rest) = a # b # c # CHR '','' # group3 (d # rest)"
| "group3 ds = ds"

definition thousands :: "int \<Rightarrow> string" where
  "thousands n =
     (if n < 0 then ''-'' else []) @ rev (group3 (rev (decimal (nat \<bar>n\<bar>))))"

subsection \<open>Built-ins on raw values\<close>

text \<open>\<^verbatim>\<open>bool(v)\<close>, as \<^verbatim>\<open>if date_posted:\<close> tests it.\<close>

fun truthy :: "pyval \<Rightarrow> bool" where
  "truthy PNone = False"
| "truthy (PBool b) = b"
| "truthy (PInt n) = (n \<noteq> 0)"
| "truthy (PFloat f) = (f \<noteq> Finite 0)"
| "truthy PNegZero = False"
| "truthy (PStr s) = (s \<noteq> [])"
| "truthy (PDate d) = True"

text \<open>
  \<^verbatim>\<open>'%Y-%m-%d'\<close> of a date, and of the date part of a clock reading. \<^verbatim>\<open>strftime\<close>
  hands the format to the C library, and glibc writes \<^verbatim>\<open>%Y\<close> without padding: the year
  999 gives \<^verbatim>\<open>999-01-02\<close>. \<^verbatim>\<open>str\<close> of a date is its \<^verbatim>\<open>isoformat()\<close>, which Python
  itself pads to four digits. \<^verbatim>\<open>v.strftime\<close> exists on a date only: \<open>strftime_of v\<close> is
  \<open>None\<close> where \<^verbatim>\<open>hasattr(v, "strftime")\<close> is false.
\<close>

definition ymd :: "'a caldate_scheme \<Rightarrow> string" where
  "ymd d = decimal (year d) @ ''-'' @ zero_pad 2 (month d) @ ''-'' @ zero_pad 2 (day d)"

definition isoformat :: "'a caldate_scheme \<Rightarrow> string" where
  "isoformat d = zero_pad 4 (year d) @ ''-'' @ zero_pad 2 (month d) @ ''-'' @ zero_pad 2 (day d)"

text \<open>
  A date with its fields in range and a year of four digits. The shape \<^verbatim>\<open>YYYY-MM-DD\<close>
  is four digits, two digits and two digits between hyphens.
\<close>

definition valid_date :: "'a caldate_scheme \<Rightarrow> bool" where
  "valid_date d =
     (1000 \<le> year d \<and> year d \<le> 9999 \<and> 1 \<le> month d \<and> month d \<le> 12
      \<and> 1 \<le> day d \<and> day d \<le> 31)"

definition is_digit :: "char \<Rightarrow> bool" where
  "is_digit c = (c \<in> set ''0123456789'')"

definition date_shaped :: "string \<Rightarrow> bool" where
  "date_shaped s =
     (length s = 10
      \<and> list_all is_digit (take 4 s) \<and> s ! 4 = CHR ''-''
      \<and> list_all is_digit (take 2 (drop 5 s)) \<and> s ! 7 = CHR ''-''
      \<and> list_all is_digit (drop 8 s))"

fun strftime_of :: "pyval \<Rightarrow> string option" where
  "strftime_of (PDate d) = Some (ymd d)"
| "strftime_of _ = None"

text \<open>\<^verbatim>\<open>str(v)\<close>.\<close>

fun py_str :: "builtins \<Rightarrow> pyval \<Rightarrow> string" where
  "py_str L PNone = ''None''"
| "py_str L (PBool b) = (if b then ''True'' else ''False'')"
| "py_str L (PInt n) = str_int n"
| "py_str L (PFloat NaN) = ''nan''"
| "py_str L (PFloat PosInf) = ''inf''"
| "py_str L (PFloat NegInf) = ''-inf''"
| "py_str L (PFloat (Finite x)) = repr_float L x"
| "py_str L PNegZero = ''-0.0''"
| "py_str L (PStr s) = s"
| "py_str L (PDate d) = isoformat d"

text \<open>
  \<^verbatim>\<open>math.isnan(float(v))\<close>. \<^verbatim>\<open>float\<close> raises \<^verbatim>\<open>TypeError\<close> on \<^verbatim>\<open>None\<close> and on a date,
  \<^verbatim>\<open>ValueError\<close> on a text it cannot read, and \<^verbatim>\<open>OverflowError\<close> on an \<^verbatim>\<open>int\<close> that
  rounds beyond the largest double (from \<open>2^1024 - 2^970\<close> on, in absolute value).
\<close>

fun float_isnan :: "builtins \<Rightarrow> pyval \<Rightarrow> pyerror + bool" where
  "float_isnan L PNone = Inl TypeError"
| "float_isnan L (PBool b) = Inr False"
| "float_isnan L (PInt n) =
     (if \<bar>n\<bar> < 2 ^ 1024 - 2 ^ 970 then Inr False else Inl OverflowError)"
| "float_isnan L (PFloat f) = Inr (f = NaN)"
| "float_isnan L PNegZero = Inr False"
| "float_isnan L (PStr s) =
     (case float_of_text L s of None \<Rightarrow> Inl ValueError | Some f \<Rightarrow> Inr (f = NaN))"
| "float_isnan L (PDate d) = Inl TypeError"

text \<open>
  \<^verbatim>\<open>int(v)\<close>: a finite float is truncated towards zero; an infinity raises
  \<^verbatim>\<open>OverflowError\<close> and not-a-number \<^verbatim>\<open>ValueError\<close>.
\<close>

definition toward_zero :: "real \<Rightarrow> int" where
  "toward_zero x = (if 0 \<le> x then \<lfloor>x\<rfloor> else \<lceil>x\<rceil>)"

fun py_int :: "builtins \<Rightarrow> pyval \<Rightarrow> pyerror + int" where
  "py_int L PNone = Inl TypeError"
| "py_int L (PBool b) = Inr (if b then 1 else 0)"
| "py_int L (PInt n) = Inr n"
| "py_int L (PFloat NaN) = Inl ValueError"
| "py_int L (PFloat PosInf) = Inl OverflowError"
| "py_int L (PFloat NegInf) = Inl OverflowError"
| "py_int L (PFloat (Finite x)) = Inr (toward_zero x)"
| "py_int L PNegZero = Inr 0"
| "py_int L (PStr s) = (case int_of_text L s of None \<Rightarrow> Inl ValueError | Some n \<Rightarrow> Inr n)"
| "py_int L (PDate d) = Inl TypeError"

subsection \<open>Salary\<close>

text \<open>
  \<^verbatim>\<open>is_valid_number\<close>, the function local to the loop of \<^verbatim>\<open>export_jobs\<close>: its handler
  catches \<^verbatim>\<open>ValueError\<close> and \<^verbatim>\<open>TypeError\<close> and nothing else.
\<close>

definition is_valid_number :: "builtins \<Rightarrow> pyval \<Rightarrow> pyerror + bool" where
  "is_valid_number L val =
     (if val = PNone then Inr False
      else (case float_isnan L val of
              Inr nan \<Rightarrow> Inr (\<not> nan)
            | Inl e \<Rightarrow> if catches [ValueError, TypeError] e then Inr False else Inl e))"

text \<open>\<^verbatim>\<open>a and b\<close> on conditions that may raise: \<open>b\<close> is evaluated only when \<open>a\<close> holds.\<close>

definition py_and :: "pyerror + bool \<Rightarrow> pyerror + bool \<Rightarrow> pyerror + bool" where
  "py_and a b = and_then a (\<lambda>x. if x then b else Inr False)"

definition fmt_range :: "builtins \<Rightarrow> pyval \<Rightarrow> pyval \<Rightarrow> pyerror + string" where
  "fmt_range L lo hi =
     and_then (py_int L lo) (\<lambda>a. and_then (py_int L hi) (\<lambda>b.
       Inr (''$'' @ thousands a @ '' - $'' @ thousands b)))"

definition fmt_from :: "builtins \<Rightarrow> pyval \<Rightarrow> pyerror + string" where
  "fmt_from L lo = and_then (py_int L lo) (\<lambda>a. Inr (''$'' @ thousands a @ ''+''))"

definition fmt_upto :: "builtins \<Rightarrow> pyval \<Rightarrow> pyerror + string" where
  "fmt_upto L hi = and_then (py_int L hi) (\<lambda>b. Inr (''Up to $'' @ thousands b))"

text \<open>The body of the \<^verbatim>\<open>try\<close> block, with \<^verbatim>\<open>salary = ""\<close> before it.\<close>

definition salary_try :: "builtins \<Rightarrow> pyval \<Rightarrow> pyval \<Rightarrow> pyerror + string" where
  "salary_try L min_sal max_sal =
     and_then (py_and (is_valid_number L min_sal) (is_valid_number L max_sal)) (\<lambda>both.
       if both then fmt_range L min_sal max_sal
       else and_then (is_valid_number L min_sal) (\<lambda>lo.
         if lo then fmt_from L min_sal
         else and_then (is_valid_number L max_sal) (\<lambda>hi.
           if hi then fmt_upto L max_sal
           else Inr [])))"

text \<open>
  The block with its handler, \<^verbatim>\<open>except (ValueError, TypeError): salary = ""\<close>; any other
  exception leaves \<^verbatim>\<open>export_jobs\<close>.
\<close>

definition salary :: "builtins \<Rightarrow> pyval \<Rightarrow> pyval \<Rightarrow> pyerror + string" where
  "salary L min_sal max_sal =
     (case salary_try L min_sal max_sal of
        Inr s \<Rightarrow> Inr s
      | Inl e \<Rightarrow> if catches [ValueError, TypeError] e then Inr [] else Inl e)"

subsection \<open>The file name\<close>

text \<open>
  \<^verbatim>\<open>str.lower\<close> and the class \<^verbatim>\<open>\w\<close> of \<^verbatim>\<open>re\<close> on a \<^verbatim>\<open>str\<close> pattern, for the code
  points 0 to 255: the letters and digits of ASCII and of Latin-1, and the underscore.
\<close>

definition py_lower :: "char \<Rightarrow> char" where
  "py_lower c =
     (let n = (of_char c :: nat) in
      if (65 \<le> n \<and> n \<le> 90) \<or> (192 \<le> n \<and> n \<le> 214) \<or> (216 \<le> n \<and> n \<le> 222)
      then char_of (n + 32) else c)"

definition is_word_char :: "char \<Rightarrow> bool" where
  "is_word_char c =
     (let n = (of_char c :: nat) in
      (48 \<le> n \<and> n \<le> 57) \<or> (65 \<le> n \<and> n \<le> 90) \<or> n = 95 \<or> (97 \<le> n \<and> n \<le> 122)
      \<or> n \<in> {170, 178, 179, 181, 185, 186, 188, 189, 190}
      \<or> (192 \<le> n \<and> n \<le> 214) \<or> (216 \<le> n \<and> n \<le> 246) \<or> (248 \<le> n \<and> n \<le> 255))"

text \<open>\<^verbatim>\<open>re.sub(r'[^\w\-]', '_', s)\<close>\<close>

definition replace_special :: "string \<Rightarrow> string" where
  "replace_special s = map (\<lambda>c. if is_word_char c \<or> c = CHR ''-'' then c else CHR ''_'') s"

text \<open>\<^verbatim>\<open>s.strip('_')\<close>\<close>

definition strip_underscores :: "string \<Rightarrow> string" where
  "strip_underscores s =
     rev (dropWhile (\<lambda>c. c = CHR ''_'') (rev (dropWhile (\<lambda>c. c = CHR ''_'') s)))"

text \<open>\<^verbatim>\<open>re.sub(r'_+', '_', s)\<close>: every run of underscores becomes one underscore.\<close>

fun collapse_underscores :: "string \<Rightarrow> string" where
  "collapse_underscores (a # b # rest) =
     (if a = CHR ''_'' \<and> b = CHR ''_'' then collapse_underscores (b # rest)
      else a # collapse_underscores (b # rest))"
| "collapse_underscores s = s"

text \<open>The two assignments to \<^verbatim>\<open>safe_search\<close>, in the source's order.\<close>

definition safe_search :: "string \<Rightarrow> string" where
  "safe_search search_term =
     collapse_underscores
       (if search_term \<noteq> [] then strip_underscores (replace_special (map py_lower search_term))
        else ''jobs'')"








text \<open>
  A reading of the clock: the local date and time and the local zone's offset from UTC in
  minutes, as \<^verbatim>\<open>datetime.now().astimezone()\<close> gives them.
\<close>

record timestamp = caldate +
  hour :: nat
  minute :: nat
  second :: nat
  utcoffset :: int


text \<open>\<^verbatim>\<open>now.strftime('%Y%m%d_%H%M%S')\<close> and \<^verbatim>\<open>now.strftime('%z')\<close>.\<close>

definition strftime_stamp :: "timestamp \<Rightarrow> string" where
  "strftime_stamp t =
     decimal (year t) @ zero_pad 2 (month t) @ zero_pad 2 (day t) @ ''_''
     @ zero_pad 2 (hour t) @ zero_pad 2 (minute t) @ zero_pad 2 (second t)"

definition tz_offset :: "timestamp \<Rightarrow> string" where
  "tz_offset t =
     (if utcoffset t < 0 then ''-'' else ''+'')
     @ zero_pad 2 (nat \<bar>utcoffset t\<bar> div 60) @ zero_pad 2 (nat \<bar>utcoffset t\<bar> mod 60)"

definition default_name :: "string \<Rightarrow> timestamp \<Rightarrow> string" where
  "default_name search_term t =
     safe_search search_term @ ''_'' @ strftime_stamp t @ tz_offset t @ ''.json''"

definition ends_with :: "string \<Rightarrow> string \<Rightarrow> bool" where
  "ends_with s suf = (length suf \<le> length s \<and> drop (length s - length suf) s = suf)"

text \<open>
  The name the file is written under: what \<^verbatim>\<open>Prompt.ask\<close> returns (its default when the
  user gives nothing), with \<^verbatim>\<open>.json\<close> appended unless it ends so.
\<close>

definition resolve_filename :: "string option \<Rightarrow> string \<Rightarrow> string" where
  "resolve_filename reply dflt =
     (let filename = (case reply of None \<Rightarrow> dflt | Some s \<Rightarrow> s)
      in if ends_with filename ''.json'' then filename else filename @ ''.json'')"


subsection \<open>Identifiers\<close>

text \<open>
  \<^verbatim>\<open>uuid.uuid4()\<close> is \<^verbatim>\<open>UUID(bytes=os.urandom(16), version=4)\<close>: the sixteen random bytes
  read as one 128-bit number, with the variant and version bits set; \<^verbatim>\<open>str\<close> prints it as
  \<^verbatim>\<open>'%032x'\<close>, cut 8-4-4-4-12 with hyphens.
\<close>

definition uuid4 :: "128 word \<Rightarrow> 128 word" where
  "uuid4 r =
     (((r AND NOT (push_bit 48 0xc000)) OR push_bit 48 0x8000)
        AND NOT (push_bit 64 0xf000)) OR push_bit 76 4"

definition hex_char :: "nat \<Rightarrow> char" where
  "hex_char d = ''0123456789abcdef'' ! d"

definition nibble :: "128 word \<Rightarrow> nat \<Rightarrow> nat" where
  "nibble w i = unat (drop_bit (4 * i) w AND 0xf)"

definition hex32 :: "128 word \<Rightarrow> string" where
  "hex32 w = map (\<lambda>i. hex_char (nibble w i)) (rev [0..<32])"

definition uuid_str :: "128 word \<Rightarrow> string" where
  "uuid_str u =
     (let h = hex32 u in
      take 8 h @ ''-'' @ take 4 (drop 8 h) @ ''-'' @ take 4 (drop 12 h) @ ''-''
      @ take 4 (drop 16 h) @ ''-'' @ drop 20 h)"

definition is_hex :: "char \<Rightarrow> bool" where
  "is_hex c = (c \<in> set ''0123456789abcdef'')"

text \<open>
  The textual form of a UUID: 36 characters, hyphens at 8, 13, 18 and 23, hex digits
  elsewhere.
\<close>

definition uuid_shaped :: "string \<Rightarrow> bool" where
  "uuid_shaped s =
     (length s = 36
      \<and> list_all is_hex (take 8 s) \<and> s ! 8 = CHR ''-''
      \<and> list_all is_hex (take 4 (drop 9 s)) \<and> s ! 13 = CHR ''-''
      \<and> list_all is_hex (take 4 (drop 14 s)) \<and> s ! 18 = CHR ''-''
      \<and> list_all is_hex (take 4 (drop 19 s)) \<and> s ! 23 = CHR ''-''
      \<and> list_all is_hex (drop 24 s))"

subsection \<open>The world outside the function\<close>

text \<open>
  What \<^verbatim>\<open>export_jobs\<close> reads and writes beside its arguments: the clock (one reading per
  call of \<^verbatim>\<open>datetime.now()\<close>), the random source (sixteen bytes per call of
  \<^verbatim>\<open>uuid.uuid4()\<close>), what \<^verbatim>\<open>Prompt.ask\<close> returns for the file name (\<open>None\<close>: its default),
  the paths \<^verbatim>\<open>open(..., "w")\<close> refuses with an \<^verbatim>\<open>IOError\<close>, and the JSON documents
  written so far, by file name. Console output is not part of the state.
\<close>

record world =
  clock :: "timestamp stream"
  entropy :: "128 word stream"
  answer :: "string option"
  refused :: "string set"
  disk :: "string \<rightharpoonup> json"

definition now :: "world \<Rightarrow> timestamp \<times> world" where
  "now w = (shd (clock w), w\<lparr>clock := stl (clock w)\<rparr>)"

definition urandom16 :: "world \<Rightarrow> 128 word \<times> world" where
  "urandom16 w = (shd (entropy w), w\<lparr>entropy := stl (entropy w)\<rparr>)"

subsection \<open>Converting the records\<close>

type_synonym job = "string \<rightharpoonup> pyval"

text \<open>\<^verbatim>\<open>job.get(k)\<close> and \<^verbatim>\<open>job.get(k, "")\<close>.\<close>

definition dict_get :: "job \<Rightarrow> string \<Rightarrow> pyval" where
  "dict_get j k = (case j k of None \<Rightarrow> PNone | Some v \<Rightarrow> v)"

definition dict_get_or_empty :: "job \<Rightarrow> string \<Rightarrow> pyval" where
  "dict_get_or_empty j k = (case j k of None \<Rightarrow> PStr [] | Some v \<Rightarrow> v)"

text \<open>
  The date of one record: the \<^verbatim>\<open>if date_posted:\<close> block. The clock is read only in the
  \<^verbatim>\<open>else\<close> branch.
\<close>

definition date_posted :: "builtins \<Rightarrow> pyval \<Rightarrow> world \<Rightarrow> string \<times> world" where
  "date_posted L v w =
     (if truthy v then
        (case strftime_of v of
           Some formatted \<Rightarrow> (formatted, w)
         | None \<Rightarrow> (take 10 (py_str L v), w))
      else (let (t, w') = now w in (ymd t, w')))"

text \<open>
  The date as the specification words it: a value with \<^verbatim>\<open>strftime\<close> is formatted; else a
  value that is not \<^verbatim>\<open>None\<close> gives the first ten characters of its string form; else the
  current local date.
\<close>

definition spec_date_posted :: "builtins \<Rightarrow> pyval \<Rightarrow> world \<Rightarrow> string" where
  "spec_date_posted L v w =
     (case strftime_of v of
        Some formatted \<Rightarrow> formatted
      | None \<Rightarrow> if v \<noteq> PNone then take 10 (py_str L v) else ymd (shd (clock w)))"

text \<open>
  The body of the loop: the date, the salary, then the dictionary literal, whose first
  entry calls \<^verbatim>\<open>uuid.uuid4()\<close>.
\<close>

definition cleansheet_job ::
  "builtins \<Rightarrow> job \<Rightarrow> string \<Rightarrow> string \<Rightarrow> string \<Rightarrow> string \<rightharpoonup> json" where
  "cleansheet_job L j ident sal posted = map_of
     [(''id'', JStr ident),
      (''company'', JStr (py_str L (dict_get_or_empty j ''company''))),
      (''title'', JStr (py_str L (dict_get_or_empty j ''title''))),
      (''location'', JStr (py_str L (dict_get_or_empty j ''location''))),
      (''url'', JStr (py_str L (dict_get_or_empty j ''job_url''))),
      (''description'', JStr (py_str L (dict_get_or_empty j ''description''))),
      (''salary'', JStr sal),
      (''datePosted'', JStr posted),
      (''source'', JStr (py_str L (dict_get_or_empty j ''site''))),
      (''status'', JStr ''Saved''),
      (''tags'', JArr [])]"

definition convert_job ::
  "builtins \<Rightarrow> job \<Rightarrow> world \<Rightarrow> pyerror + ((string \<rightharpoonup> json) \<times> world)" where
  "convert_job L j w =
     (let (posted, w1) = date_posted L (dict_get j ''date_posted'') w in
      and_then (salary L (dict_get j ''min_amount'') (dict_get j ''max_amount'')) (\<lambda>sal.
        let (r, w2) = urandom16 w1 in
        Inr (cleansheet_job L j (uuid_str (uuid4 r)) sal posted, w2)))"

text \<open>The loop \<^verbatim>\<open>for job in jobs: ... cleansheet_jobs.append(cleansheet_job)\<close>.\<close>

fun convert_all ::
  "builtins \<Rightarrow> job list \<Rightarrow> world \<Rightarrow> pyerror + ((string \<rightharpoonup> json) list \<times> world)" where
  "convert_all L [] w = Inr ([], w)"
| "convert_all L (j # js) w =
     and_then (convert_job L j w) (\<lambda>(c, w1).
       and_then (convert_all L js w1) (\<lambda>(cs, w2). Inr (c # cs, w2)))"

subsection \<open>\<^verbatim>\<open>export_jobs\<close>\<close>

text \<open>
  The name the export is written under, from the first clock reading and the answer at
  the prompt.
\<close>

definition export_filename :: "string \<Rightarrow> world \<Rightarrow> string" where
  "export_filename search_term w =
     resolve_filename (answer w) (default_name search_term (shd (clock w)))"

text \<open>
  \<^verbatim>\<open>export_jobs\<close>: nothing is done for an empty list. Otherwise the file name is settled,
  the records are converted, and \<^verbatim>\<open>json.dump(cleansheet_jobs, f, ...)\<close> writes the list of
  converted records; an \<^verbatim>\<open>IOError\<close> of the write is caught and the function returns. An
  exception of the conversion is not caught.
\<close>

definition export_jobs :: "builtins \<Rightarrow> job list \<Rightarrow> string \<Rightarrow> world \<Rightarrow> pyerror + world" where
  "export_jobs L jobs search_term w =
     (if jobs = [] then Inr w
      else
        (let filename = export_filename search_term w;
             (t, w0) = now w
         in and_then (convert_all L jobs w0) (\<lambda>(cleansheet_jobs, w1).
              if filename \<in> refused w1 then Inr w1
              else Inr (w1\<lparr>disk := (disk w1)(filename \<mapsto> JArr (map JObj cleansheet_jobs))\<rparr>))))"

text \<open>
  The export document as the specification words it: an object whose \<^verbatim>\<open>exportType\<close> is
  \<^verbatim>\<open>"jobspy_harvest"\<close> and whose \<^verbatim>\<open>jobs\<close> is the sequence of records.
\<close>

definition is_export_document :: "json option \<Rightarrow> (string \<rightharpoonup> json) list \<Rightarrow> bool" where
  "is_export_document doc records =
     (case doc of
        Some (JObj m) \<Rightarrow>
          m ''exportType'' = Some (JStr ''jobspy_harvest'')
          \<and> m ''jobs'' = Some (JArr (map JObj records))
      | _ \<Rightarrow> False)"

subsection \<open>Notions the statements below use\<close>


text \<open>
  The salary as the specification words it. The amount of a value is the integer
  \<^verbatim>\<open>int\<close> gives for a number that is present and not NaN, and \<open>None\<close> for \<^verbatim>\<open>None\<close>, for
  not-a-number and for a value that is no number.
\<close>

definition amount_of :: "pyval \<Rightarrow> int option" where
  "amount_of v =
     (case v of
        PBool b \<Rightarrow> Some (if b then 1 else 0)
      | PInt n \<Rightarrow> Some n
      | PFloat (Finite x) \<Rightarrow> Some (toward_zero x)
      | PNegZero \<Rightarrow> Some 0
      | _ \<Rightarrow> None)"

definition spec_salary :: "pyval \<Rightarrow> pyval \<Rightarrow> string" where
  "spec_salary min_sal max_sal =
     (case (amount_of min_sal, amount_of max_sal) of
        (Some a, Some b) \<Rightarrow> ''$'' @ thousands a @ '' - $'' @ thousands b
      | (Some a, None) \<Rightarrow> ''$'' @ thousands a @ ''+''
      | (None, Some b) \<Rightarrow> ''Up to $'' @ thousands b
      | (None, None) \<Rightarrow> [])"

text \<open>
  The values on which both coercions of the salary block are settled without the three
  built-ins and without an overflow: everything but a text, an infinity and an \<^verbatim>\<open>int\<close>
  beyond the range of a double.
\<close>

fun coercible :: "pyval \<Rightarrow> bool" where
  "coercible (PInt n) = (\<bar>n\<bar> < 2 ^ 1024 - 2 ^ 970)"
| "coercible (PFloat PosInf) = False"
| "coercible (PFloat NegInf) = False"
| "coercible (PStr s) = False"
| "coercible _ = True"

text \<open>The eleven fields of an export record, in the order of the dictionary literal.\<close>

definition export_fields :: "string list" where
  "export_fields =
     [''id'', ''company'', ''title'', ''location'', ''url'', ''description'', ''salary'',
      ''datePosted'', ''source'', ''status'', ''tags'']"

text \<open>
  A clock reading and a world for the ground evaluations: the clock stands still, the
  random source counts upwards, nothing is typed at the prompt and the disk is empty.
\<close>

definition sample_now :: timestamp where
  "sample_now =
     \<lparr>year = 2025, month = 1, day = 5, hour = 9, minute = 3, second = 7, utcoffset = - 300\<rparr>"

definition sample_world :: world where
  "sample_world =
     \<lparr>clock = sconst sample_now, entropy = siterate ((+) 1) 0, answer = None,
      refused = {}, disk = Map.empty\<rparr>"

text \<open>
  The salary block of a record returns (it raises nothing out of the loop).
\<close>

definition salary_returns :: "builtins \<Rightarrow> job \<Rightarrow> bool" where
  "salary_returns L j =
     (case salary L (dict_get j ''min_amount'') (dict_get j ''max_amount'') of
        Inr s \<Rightarrow> True
      | Inl e \<Rightarrow> False)"

text \<open>
  An export record of the raw record \<open>j\<close>, as the specification describes it: exactly the
  eleven fields, an identifier of the textual form of a UUID, the text fields copied through
  \<^verbatim>\<open>str\<close> (\<^verbatim>\<open>job_url\<close> into \<^verbatim>\<open>url\<close>, \<^verbatim>\<open>site\<close> into \<^verbatim>\<open>source\<close>), the status
  \<^verbatim>\<open>Saved\<close> and no tags.
\<close>

definition is_export_record :: "builtins \<Rightarrow> job \<Rightarrow> (string \<rightharpoonup> json) \<Rightarrow> bool" where
  "is_export_record L j r =
     (dom r = set export_fields
      \<and> (case r ''id'' of Some (JStr u) \<Rightarrow> uuid_shaped u | _ \<Rightarrow> False)
      \<and> r ''company'' = Some (JStr (py_str L (dict_get_or_empty j ''company'')))
      \<and> r ''title'' = Some (JStr (py_str L (dict_get_or_empty j ''title'')))
      \<and> r ''location'' = Some (JStr (py_str L (dict_get_or_empty j ''location'')))
      \<and> r ''url'' = Some (JStr (py_str L (dict_get_or_empty j ''job_url'')))
      \<and> r ''description'' = Some (JStr (py_str L (dict_get_or_empty j ''description'')))
      \<and> r ''source'' = Some (JStr (py_str L (dict_get_or_empty j ''site'')))
      \<and> r ''status'' = Some (JStr ''Saved'')
      \<and> r ''tags'' = Some (JArr []))"

definition text_fields :: "string list" where
  "text_fields = [''company'', ''title'', ''location'', ''description'']"

text \<open>A raw record whose lower salary bound is the float infinity.\<close>

definition infinite_salary_job :: job where
  "infinite_salary_job = map_of
     [(''title'', PStr ''Trader''),
      (''company'', PStr ''Acme''),
      (''min_amount'', PFloat PosInf),
      (''max_amount'', PInt 100000)]"

text \<open>Two raw records: one complete, one with a title and NaN amounts only.\<close>

definition sample_jobs :: "job list" where
  "sample_jobs =
     [map_of
        [(''title'', PStr ''Data Engineer''),
         (''company'', PStr ''Data Inc''),
         (''location'', PStr ''Remote''),
         (''job_url'', PStr ''https://example.com/job/456''),
         (''description'', PStr ''Data engineering role''),
         (''date_posted'', PStr ''2025-01-10''),
         (''min_amount'', PInt 100000),
         (''max_amount'', PInt 150000),
         (''site'', PStr ''linkedin'')],
      map_of
        [(''title'', PStr ''Junior Developer''),
         (''min_amount'', PFloat NaN),
         (''max_amount'', PFloat NaN)]]"

section \<open>Properties of the settings store\<close>

lemma dom_DEFAULT_CONFIG: "dom DEFAULT_CONFIG = set recognized_keys"
  by (auto simp add: DEFAULT_CONFIG_def recognized_keys_def split: if_splits)

lemma load_config_object: "load_config (JsonFile (JObj m)) = Inr (DEFAULT_CONFIG ++ m)"
  by (simp add: load_config_def and_then_def)


lemma default_absent: "k \<notin> set recognized_keys \<Longrightarrow> DEFAULT_CONFIG k = None"
  using dom_DEFAULT_CONFIG by blast

text \<open>
  Claim C2, as the code has it: the record \<^verbatim>\<open>load_config\<close> returns for a file holding a JSON
  object has the six recognized keys and, beside them, every key of the file's object; a key
  of the file that is not a recognized one is kept with the file's value.
\<close>

theorem load_config_keeps_unknown_keys:
  "\<exists>r. load_config (JsonFile (JObj m)) = Inr r
       \<and> dom r = set recognized_keys \<union> dom m
       \<and> (\<forall>k. k \<notin> set recognized_keys \<longrightarrow> r k = m k)"
proof -
  have "dom (DEFAULT_CONFIG ++ m) = set recognized_keys \<union> dom m"
    by (simp add: dom_DEFAULT_CONFIG Un_commute)
  moreover have "\<forall>k. k \<notin> set recognized_keys \<longrightarrow> (DEFAULT_CONFIG ++ m) k = m k"
    by (simp add: map_add_def default_absent split: option.splits)
  ultimately show ?thesis
    by (simp add: load_config_object)
qed

theorem load_config_keeps_unknown_keys_witness:
  "\<exists>r. load_config (JsonFile (JObj (map_of [(''theme'', JStr ''dark'')]))) = Inr r
       \<and> dom r = set recognized_keys \<union> {''theme''}
       \<and> r ''theme'' = Some (JStr ''dark'')"
proof -
  have k: "''theme'' \<notin> set recognized_keys" by (simp add: recognized_keys_def)
  from load_config_keeps_unknown_keys [of "map_of [(''theme'', JStr ''dark'')]"]
  obtain r where r: "load_config (JsonFile (JObj (map_of [(''theme'', JStr ''dark'')]))) = Inr r"
      "dom r = set recognized_keys \<union> dom (map_of [(''theme'', JStr ''dark'')])"
      "\<forall>k. k \<notin> set recognized_keys \<longrightarrow> r k = map_of [(''theme'', JStr ''dark'')] k"
    by blast
  from r(3) k have "r ''theme'' = Some (JStr ''dark'')" by simp
  with r(1) r(2) show ?thesis by simp
qed

text \<open>
  Claim C2 as stated (unknown keys of the file do not appear in the result) fails: a file
  holding \<^verbatim>\<open>{"theme": "dark"}\<close> loads to a record that has the key \<^verbatim>\<open>theme\<close>.
\<close>

theorem unknown_key_survives_load:
  "has_key (load_config (JsonFile (JObj (map_of [(''theme'', JStr ''dark'')])))) ''theme''
   \<and> ''theme'' \<notin> set recognized_keys"
  by (simp add: load_config_object has_key_def recognized_keys_def)

text \<open>
  Claim C4: for a file holding a JSON object, \<^verbatim>\<open>load_config\<close> returns a record in which
  every key the file lacks has the value of \<^verbatim>\<open>DEFAULT_CONFIG\<close> and every key the file has
  keeps the file's value.
\<close>

theorem load_config_merge:
  "\<exists>r. load_config (JsonFile (JObj m)) = Inr r
       \<and> (\<forall>k. m k = None \<longrightarrow> r k = DEFAULT_CONFIG k)
       \<and> (\<forall>k v. m k = Some v \<longrightarrow> r k = Some v)"
  by (simp add: load_config_object map_add_def)

theorem load_config_merge_witness:
  "\<exists>r. load_config (JsonFile (JObj (map_of
            [(''default_search'', JStr ''test search''), (''results_per_site'', JInt 50)]))) = Inr r
       \<and> r ''default_search'' = Some (JStr ''test search'')
       \<and> r ''results_per_site'' = Some (JInt 50)
       \<and> r ''default_location'' = Some (JStr ''USA'')
       \<and> r ''remote_only'' = Some (JBool False)
       \<and> r ''job_type'' = Some JNull"
proof -
  let ?m = "map_of [(''default_search'', JStr ''test search''), (''results_per_site'', JInt 50)]"
  from load_config_merge [of ?m]
  obtain r where r: "load_config (JsonFile (JObj ?m)) = Inr r"
      "\<forall>k. ?m k = None \<longrightarrow> r k = DEFAULT_CONFIG k"
      "\<forall>k v. ?m k = Some v \<longrightarrow> r k = Some v"
    by blast
  have "r ''default_search'' = Some (JStr ''test search'')" using r(3) by simp
  moreover have "r ''results_per_site'' = Some (JInt 50)" using r(3) by simp
  moreover have "r ''default_location'' = Some (JStr ''USA'')"
    using r(2) by (simp add: DEFAULT_CONFIG_def)
  moreover have "r ''remote_only'' = Some (JBool False)"
    using r(2) by (simp add: DEFAULT_CONFIG_def)
  moreover have "r ''job_type'' = Some JNull"
    using r(2) by (simp add: DEFAULT_CONFIG_def)
  ultimately show ?thesis using r(1) by blast
qed

text \<open>
  Where the handler of \<^verbatim>\<open>load_config\<close> applies: on an empty file, on a text that is no
  JSON document and on a file that cannot be opened, the default record is returned, as for a
  missing file.
\<close>

lemma load_config_fallback:
  "load_config EmptyFile = Inr DEFAULT_CONFIG
   \<and> load_config CorruptFile = Inr DEFAULT_CONFIG
   \<and> load_config Unreadable = Inr DEFAULT_CONFIG
   \<and> load_config NoFile = Inr DEFAULT_CONFIG"
  by (simp add: load_config_def and_then_def catches_def isinstance_def)

text \<open>
  Claim C5 (a corrupt file loads as a missing one does, and no error reaches the caller)
  against the code: a file of bytes that are no text makes \<^verbatim>\<open>load_config\<close> raise
  \<^verbatim>\<open>UnicodeDecodeError\<close>, and a document nested too deeply makes it raise
  \<^verbatim>\<open>RecursionError\<close>; the handler lists \<^verbatim>\<open>JSONDecodeError\<close> and \<^verbatim>\<open>IOError\<close> and catches
  neither, while a missing file gives the default record.
\<close>

theorem load_config_raises_on_corrupt_bytes:
  "load_config UndecodableFile = Inl UnicodeDecodeError
   \<and> load_config DeepFile = Inl RecursionError
   \<and> load_config NoFile = Inr DEFAULT_CONFIG"
  by (simp add: load_config_def and_then_def catches_def isinstance_def)






text \<open>
  Claim C10: a file whose content is valid JSON but not an object (an array, a string, a
  number, \<^verbatim>\<open>null\<close>) makes \<^verbatim>\<open>load_config\<close> raise \<^verbatim>\<open>TypeError\<close>, which its handler
  does not catch.
\<close>

theorem load_config_wrong_type:
  "\<not> is_object j \<Longrightarrow> load_config (JsonFile j) = Inl TypeError"
  by (cases j) (simp_all add: is_object_def load_config_def and_then_def catches_def isinstance_def)

theorem load_config_wrong_type_witness:
  "\<not> is_object (JArr []) \<and> load_config (JsonFile (JArr [])) = Inl TypeError"
proof -
  have h: "\<not> is_object (JArr [])" by (simp add: is_object_def)
  from load_config_wrong_type [OF h] h show ?thesis by simp
qed

section \<open>Properties of the export converter\<close>

subsection \<open>Digits and shapes\<close>

text \<open>
  The decimal digits of a number are digits, a number below \<open>10 ^ k\<close> has at most \<open>k\<close> of
  them, and so a padded field in range has exactly its width.
\<close>

lemma digit_char_is_digit: "d < 10 \<Longrightarrow> is_digit (digit_char d)"
proof -
  assume "d < 10"
  then have "d \<in> {0,1,2,3,4,5,6,7,8,9}" by auto
  then show ?thesis by (auto simp add: is_digit_def digit_char_def)
qed

lemma decimal_digits: "list_all is_digit (decimal n)"
proof (induction n rule: decimal.induct)
  case (1 n)
  show ?case
  proof (cases "n < 10")
    case True
    then show ?thesis by (simp add: decimal.simps [of n] digit_char_is_digit)
  next
    case False
    with 1 have "list_all is_digit (decimal (n div 10))" by simp
    moreover have "is_digit (digit_char (n mod 10))" by (simp add: digit_char_is_digit)
    ultimately show ?thesis using False by (simp add: decimal.simps [of n])
  qed
qed

lemma decimal_length: "n < 10 ^ k \<Longrightarrow> 0 < k \<Longrightarrow> length (decimal n) \<le> k"
proof (induction n arbitrary: k rule: decimal.induct)
  case (1 n)
  show ?case
  proof (cases "n < 10")
    case True
    then show ?thesis using "1.prems" by (simp add: decimal.simps [of n])
  next
    case False
    then obtain k' where k: "k = Suc k'" using "1.prems" by (cases k) auto
    have "k' \<noteq> 0" using False "1.prems" k by (cases k') auto
    moreover have "n div 10 < 10 ^ k'" using "1.prems" k by (simp add: less_mult_imp_div_less mult.commute)
    ultimately have "length (decimal (n div 10)) \<le> k'" using 1(1) [OF False, of k'] by simp
    then show ?thesis using False k by (simp add: decimal.simps [of n])
  qed
qed

lemma decimal_length_lower: "10 ^ k \<le> n \<Longrightarrow> k < length (decimal n)"
proof (induction k arbitrary: n)
  case 0
  then show ?case by (cases "n < 10") (simp_all add: decimal.simps [of n])
next
  case (Suc k)
  then have "10 ^ k \<le> n div 10" by simp
  then have "k < length (decimal (n div 10))" by (rule Suc.IH)
  moreover have "(10::nat) \<le> 10 ^ Suc k" by simp
  then have "\<not> n < 10" using Suc.prems by linarith
  ultimately show ?case by (simp add: decimal.simps [of n])
qed

lemma decimal_year: "1000 \<le> n \<Longrightarrow> n \<le> 9999 \<Longrightarrow> decimal n = zero_pad 4 n"
  using decimal_length_lower [of 3 n] by (simp add: zero_pad_def)

lemma zero_pad_length: "n < 10 ^ k \<Longrightarrow> 0 < k \<Longrightarrow> length (zero_pad k n) = k"
  using decimal_length [of n k] by (simp add: zero_pad_def)

lemma zero_0_digit: "is_digit (CHR ''0'')" by (simp add: is_digit_def)

lemma zero_pad_digits: "list_all is_digit (zero_pad k n)"
  using decimal_digits [of n] by (auto simp add: zero_pad_def list_all_iff zero_0_digit)


lemma date_shapedI:
  assumes "length Y = 4" "length M = 2" "length D = 2"
    and "list_all is_digit Y" "list_all is_digit M" "list_all is_digit D"
  shows "date_shaped (Y @ ''-'' @ M @ ''-'' @ D)"
  using assms by (simp add: date_shaped_def nth_append)

lemma ymd_shaped: "valid_date d \<Longrightarrow> date_shaped (ymd d)"
proof -
  assume v: "valid_date d"
  then have "decimal (year d) = zero_pad 4 (year d)"
    by (simp add: valid_date_def decimal_year)
  then show ?thesis
    unfolding ymd_def using v
    by (intro date_shapedI) (simp_all add: valid_date_def zero_pad_length zero_pad_digits)
qed



subsection \<open>The file name base\<close>

text \<open>
  The source strips the underscores at both ends and then collapses the runs; the
  specification collapses and then strips. Collapsing keeps the first character, the set of
  characters and emptiness, so it commutes with stripping on the left and on the right.
\<close>

lemma collapse_Cons: "\<exists>t. collapse_underscores (x # xs) = x # t"
  by (induction "x # xs" arbitrary: x xs rule: collapse_underscores.induct) auto

lemma collapse_Nil_iff: "collapse_underscores s = [] \<longleftrightarrow> s = []"
proof (cases s)
  case Nil
  then show ?thesis by simp
next
  case (Cons a list)
  obtain t where "collapse_underscores (a # list) = a # t" using collapse_Cons by blast
  with Cons show ?thesis by simp
qed




























lemmas base_eval =
  safe_search_def replace_special_def is_word_char_def py_lower_def strip_underscores_def
  char_of_eq_iff







lemma base_example_latin1:
  "safe_search [CHR 0xC9, CHR ''t'', CHR 0xE9] = [CHR 0xE9, CHR ''t'', CHR 0xE9]"
  by (simp add: base_eval)



subsection \<open>The salary\<close>

text \<open>
  On \<^verbatim>\<open>None\<close>, booleans, integers in the range of a double, not-a-number, finite floats
  and dates, the salary block returns the text the specification gives, whatever the three
  built-ins are; the five examples of the specification are instances.
\<close>

lemma valid_coercible:
  "coercible v \<Longrightarrow> is_valid_number L v = Inr (amount_of v \<noteq> None)"
  apply (cases v)
  subgoal by (simp add: is_valid_number_def amount_of_def)
  subgoal by (simp add: is_valid_number_def amount_of_def)
  subgoal by (simp add: is_valid_number_def amount_of_def del: power_numeral)
  subgoal for f by (cases f) (simp_all add: is_valid_number_def amount_of_def)
  subgoal by (simp add: is_valid_number_def amount_of_def)
  subgoal by simp
  subgoal by (simp add: is_valid_number_def amount_of_def catches_def isinstance_def)
  done

lemma int_coercible:
  "amount_of v = Some a \<Longrightarrow> py_int L v = Inr a"
  apply (cases v)
  subgoal by (simp add: amount_of_def)
  subgoal by (auto simp add: amount_of_def)
  subgoal by (simp add: amount_of_def)
  subgoal for f by (cases f) (simp_all add: amount_of_def)
  subgoal by (simp add: amount_of_def)
  subgoal by (simp add: amount_of_def)
  subgoal by (simp add: amount_of_def)
  done

lemma salary_of_numbers:
  assumes "coercible min_sal" and "coercible max_sal"
  shows "salary L min_sal max_sal = Inr (spec_salary min_sal max_sal)"
proof (cases "amount_of min_sal")
  case None
  note lo = this
  show ?thesis
  proof (cases "amount_of max_sal")
    case None
    with lo assms show ?thesis
      by (simp add: salary_def salary_try_def py_and_def and_then_def valid_coercible spec_salary_def)
  next
    case (Some b)
    with lo assms show ?thesis
      by (simp add: salary_def salary_try_def py_and_def and_then_def valid_coercible
          spec_salary_def fmt_upto_def int_coercible)
  qed
next
  case (Some a)
  note lo = this
  show ?thesis
  proof (cases "amount_of max_sal")
    case None
    with lo assms show ?thesis
      by (simp add: salary_def salary_try_def py_and_def and_then_def valid_coercible
          spec_salary_def fmt_from_def int_coercible)
  next
    case (Some b)
    with lo assms show ?thesis
      by (simp add: salary_def salary_try_def py_and_def and_then_def valid_coercible
          spec_salary_def fmt_range_def int_coercible)
  qed
qed

lemma thousands_100000: "thousands 100000 = ''100,000''" by (simp add: thousands_def decimal.simps digit_char_def)
lemma thousands_150000: "thousands 150000 = ''150,000''" by (simp add: thousands_def decimal.simps digit_char_def)
lemma thousands_80000: "thousands 80000 = ''80,000''" by (simp add: thousands_def decimal.simps digit_char_def)
lemma thousands_120000: "thousands 120000 = ''120,000''" by (simp add: thousands_def decimal.simps digit_char_def)

lemma salary_examples:
  "salary L (PInt 100000) (PInt 150000) = Inr ''$100,000 - $150,000''
   \<and> salary L (PInt 80000) PNone = Inr ''$80,000+''
   \<and> salary L PNone (PInt 120000) = Inr ''Up to $120,000''
   \<and> salary L (PFloat NaN) (PFloat NaN) = Inr []
   \<and> salary L (PFloat NaN) (PInt 100000) = Inr ''Up to $100,000''"
  by (simp add: salary_of_numbers spec_salary_def amount_of_def thousands_100000 thousands_150000 thousands_80000 thousands_120000)

text \<open>
  Claim C3 (a coercion failure counts as invalid and never raises) fails where a bound is
  an infinity: \<^verbatim>\<open>float('inf')\<close> is not NaN, so the bound counts as valid, and
  \<^verbatim>\<open>int(float('inf'))\<close> raises \<^verbatim>\<open>OverflowError\<close>, which neither handler catches.
\<close>

theorem salary_raises_on_infinity:
  "salary L (PFloat PosInf) (PInt 100000) = Inl OverflowError"
  by (simp add: salary_def salary_try_def py_and_def is_valid_number_def and_then_def
      fmt_range_def catches_def isinstance_def)

subsection \<open>The date\<close>

lemma ymd_not_empty: "ymd d \<noteq> []"
  by (simp add: ymd_def)

lemma strftime_truthy: "strftime_of v = Some s \<Longrightarrow> truthy v"
  by (cases v) simp_all

text \<open>
  Claim C8, as the code has it: a value with \<^verbatim>\<open>strftime\<close> is formatted
  \<^verbatim>\<open>YYYY-MM-DD\<close>; a value without it that is true in a condition gives the first ten
  characters of its string form; every value that is false in a condition (\<^verbatim>\<open>None\<close>, but
  also the empty text, zero and \<^verbatim>\<open>False\<close>) gives the current local date. On \<^verbatim>\<open>None\<close> and
  on every value that is true in a condition this is the date the specification describes.
\<close>

theorem date_posted_by_truthiness:
  "(\<forall>s. strftime_of v = Some s \<longrightarrow> fst (date_posted L v w) = s)
   \<and> (\<forall>d. v = PDate d \<and> valid_date d \<longrightarrow> date_shaped (fst (date_posted L v w)))
   \<and> (strftime_of v = None \<and> truthy v \<longrightarrow> fst (date_posted L v w) = take 10 (py_str L v))
   \<and> (\<not> truthy v \<longrightarrow> fst (date_posted L v w) = ymd (shd (clock w)))
   \<and> (truthy v \<or> v = PNone \<longrightarrow> fst (date_posted L v w) = spec_date_posted L v w)"
proof -
  have a: "fst (date_posted L v w) = s" if "strftime_of v = Some s" for s
    using that strftime_truthy [OF that] by (simp add: date_posted_def)
  have b: "date_shaped (fst (date_posted L v w))" if "v = PDate d" "valid_date d" for d
    using that by (simp add: date_posted_def ymd_shaped)
  have c: "fst (date_posted L v w) = take 10 (py_str L v)" if "strftime_of v = None" "truthy v"
    using that by (simp add: date_posted_def)
  have d: "fst (date_posted L v w) = ymd (shd (clock w))" if "\<not> truthy v"
    using that by (simp add: date_posted_def now_def)
  have e: "fst (date_posted L v w) = spec_date_posted L v w" if "truthy v \<or> v = PNone"
  proof (cases "strftime_of v")
    case None
    show ?thesis
    proof (cases "truthy v")
      case True
      then have "v \<noteq> PNone" by auto
      with None True show ?thesis by (simp add: date_posted_def spec_date_posted_def)
    next
      case False
      with that have "v = PNone" by simp
      then show ?thesis by (simp add: date_posted_def spec_date_posted_def now_def)
    qed
  next
    case (Some s)
    with a [OF Some] show ?thesis by (simp add: spec_date_posted_def)
  qed
  from a b c d e show ?thesis by blast
qed

theorem date_posted_by_truthiness_witness:
  "\<forall>L. fst (date_posted L (PDate \<lparr>year = 2025, month = 1, day = 15\<rparr>) sample_world) = ''2025-01-15''
      \<and> date_shaped (fst (date_posted L (PDate \<lparr>year = 2025, month = 1, day = 15\<rparr>) sample_world))
      \<and> fst (date_posted L (PStr ''2025-01-15T10:30:00'') sample_world) = ''2025-01-15''
      \<and> fst (date_posted L PNone sample_world) = ''2025-01-05''
      \<and> fst (date_posted L (PStr []) sample_world) = ''2025-01-05''"
proof
  fix L
  let ?d = "\<lparr>year = 2025, month = 1, day = 15\<rparr>"
  have y: "ymd ?d = ''2025-01-15''"
    by (simp add: ymd_def zero_pad_def decimal.simps digit_char_def)
  have n: "ymd (shd (clock sample_world)) = ''2025-01-05''"
    by (simp add: sample_world_def sample_now_def ymd_def zero_pad_def decimal.simps digit_char_def)
  have vd: "valid_date ?d" by (simp add: valid_date_def)
  note t1 = date_posted_by_truthiness [of "PDate ?d" L sample_world]
  note t2 = date_posted_by_truthiness [of "PStr ''2025-01-15T10:30:00''" L sample_world]
  note t3 = date_posted_by_truthiness [of PNone L sample_world]
  note t4 = date_posted_by_truthiness [of "PStr []" L sample_world]
  have "fst (date_posted L (PDate ?d) sample_world) = ''2025-01-15''"
    using t1 y by simp
  moreover have "date_shaped (fst (date_posted L (PDate ?d) sample_world))"
    using t1 vd by blast
  moreover have "fst (date_posted L (PStr ''2025-01-15T10:30:00'') sample_world) = ''2025-01-15''"
    using t2 by simp
  moreover have "fst (date_posted L PNone sample_world) = ''2025-01-05''"
    using t3 n by simp
  moreover have "fst (date_posted L (PStr []) sample_world) = ''2025-01-05''"
    using t4 n by simp
  ultimately show "fst (date_posted L (PDate ?d) sample_world) = ''2025-01-15''
      \<and> date_shaped (fst (date_posted L (PDate ?d) sample_world))
      \<and> fst (date_posted L (PStr ''2025-01-15T10:30:00'') sample_world) = ''2025-01-15''
      \<and> fst (date_posted L PNone sample_world) = ''2025-01-05''
      \<and> fst (date_posted L (PStr []) sample_world) = ''2025-01-05''"
    by blast
qed

text \<open>
  Claim C8 as stated (a value that is not \<^verbatim>\<open>None\<close> and has no \<^verbatim>\<open>strftime\<close> gives the first
  ten characters of its string form) fails on the empty text: the code gives the current
  local date, the specification's rule the empty text.
\<close>

theorem empty_text_gets_current_date:
  "\<forall>L. fst (date_posted L (PStr []) sample_world) = ''2025-01-05''
      \<and> spec_date_posted L (PStr []) sample_world = []"
  by (simp add: date_posted_def spec_date_posted_def now_def sample_world_def sample_now_def
      ymd_def zero_pad_def decimal.simps digit_char_def)

subsection \<open>Identifiers are well formed and tell UUIDs apart\<close>

text \<open>
  Every hex digit of \<open>hex32\<close> is one of sixteen characters, so the text of a UUID has the
  UUID shape; and since the sixteen characters differ, the 32 digits give the 128 bits back:
  \<open>uuid_str\<close> is injective.
\<close>

lemma fifteen_mask: "(0xf :: 128 word) = mask 4"
  by (simp add: mask_eq_exp_minus_1)

lemma nibble_take_bit: "nibble w i = unat (take_bit 4 (drop_bit (4 * i) w))"
  by (simp add: nibble_def fifteen_mask take_bit_eq_mask)

lemma nibble_less: "nibble w i < 16"
proof -
  have "take_bit 4 (unat (drop_bit (4 * i) w)) < 2 ^ 4"
    by (rule take_bit_nat_less_exp)
  then show ?thesis by (simp add: nibble_take_bit unsigned_take_bit_eq)
qed

lemma hex_char_is_hex: "d < 16 \<Longrightarrow> is_hex (hex_char d)"
  by (simp add: is_hex_def hex_char_def del: set_simps list.set)

lemma hex_char_inj: "a < 16 \<Longrightarrow> b < 16 \<Longrightarrow> hex_char a = hex_char b \<Longrightarrow> a = b"
proof -
  assume a: "a < 16" and b: "b < 16" and e: "hex_char a = hex_char b"
  have d: "distinct ''0123456789abcdef''" by simp
  have l: "length ''0123456789abcdef'' = 16" by simp
  from e have "''0123456789abcdef'' ! a = ''0123456789abcdef'' ! b" by (simp add: hex_char_def)
  with nth_eq_iff_index_eq [OF d, of a b] a b l show ?thesis by simp
qed

lemma length_hex32: "length (hex32 w) = 32"
  by (simp add: hex32_def)

lemma hex32_is_hex: "list_all is_hex (hex32 w)"
  by (simp add: hex32_def list_all_iff hex_char_is_hex nibble_less)

lemma uuid_shapedI:
  assumes "length a = 8" "length b = 4" "length c = 4" "length d = 4" "length e = 12"
    and "list_all is_hex a" "list_all is_hex b" "list_all is_hex c" "list_all is_hex d"
        "list_all is_hex e"
  shows "uuid_shaped (a @ ''-'' @ b @ ''-'' @ c @ ''-'' @ d @ ''-'' @ e)"
  using assms by (simp add: uuid_shaped_def nth_append)

lemma list_all_take: "list_all P xs \<Longrightarrow> list_all P (take n xs)"
  by (auto simp add: list_all_iff dest: in_set_takeD)

lemma list_all_drop: "list_all P xs \<Longrightarrow> list_all P (drop n xs)"
  by (auto simp add: list_all_iff dest: in_set_dropD)

lemma uuid_str_shaped: "uuid_shaped (uuid_str u)"
  unfolding uuid_str_def Let_def
  by (rule uuid_shapedI)
     (simp_all add: length_hex32 hex32_is_hex list_all_take list_all_drop)

lemma hex32_inj: "hex32 a = hex32 b \<Longrightarrow> a = b"
proof (rule bit_word_eqI)
  fix n
  assume e: "hex32 a = hex32 b" and n: "n < LENGTH(128)"
  let ?i = "n div 4" and ?k = "n mod 4"
  have i: "?i < 32" using n by simp
  from e have "\<forall>i\<in>set (rev [0..<32]). hex_char (nibble a i) = hex_char (nibble b i)"
    unfolding hex32_def by (simp only: map_eq_conv)
  with i have "hex_char (nibble a ?i) = hex_char (nibble b ?i)" by simp
  then have "nibble a ?i = nibble b ?i"
    using hex_char_inj nibble_less by blast
  then have "take_bit 4 (drop_bit (4 * ?i) a) = take_bit 4 (drop_bit (4 * ?i) b)"
    unfolding nibble_take_bit by (simp only: word_unat_eq_iff)
  then have "bit (take_bit 4 (drop_bit (4 * ?i) a)) ?k = bit (take_bit 4 (drop_bit (4 * ?i) b)) ?k"
    by simp
  then have "bit a (4 * ?i + ?k) = bit b (4 * ?i + ?k)"
    by (simp add: bit_take_bit_iff bit_drop_bit_eq)
  then show "bit a n = bit b n" by simp
qed

lemma hex32_pieces:
  "hex32 w = take 8 (hex32 w) @ take 4 (drop 8 (hex32 w)) @ take 4 (drop 12 (hex32 w))
             @ take 4 (drop 16 (hex32 w)) @ drop 20 (hex32 w)"
proof -
  let ?h = "hex32 w"
  have "drop 16 ?h = take 4 (drop 16 ?h) @ drop 20 ?h"
    using append_take_drop_id [of 4 "drop 16 ?h"] by simp
  moreover have "drop 12 ?h = take 4 (drop 12 ?h) @ drop 16 ?h"
    using append_take_drop_id [of 4 "drop 12 ?h"] by simp
  moreover have "drop 8 ?h = take 4 (drop 8 ?h) @ drop 12 ?h"
    using append_take_drop_id [of 4 "drop 8 ?h"] by simp
  moreover have "?h = take 8 ?h @ drop 8 ?h" by simp
  ultimately show ?thesis by metis
qed

lemma uuid_str_inj: "uuid_str a = uuid_str b \<Longrightarrow> a = b"
proof -
  assume e: "uuid_str a = uuid_str b"
  let ?h = "hex32 a" and ?g = "hex32 b"
  from e have "take 8 ?h = take 8 ?g \<and> take 4 (drop 8 ?h) = take 4 (drop 8 ?g)
      \<and> take 4 (drop 12 ?h) = take 4 (drop 12 ?g) \<and> take 4 (drop 16 ?h) = take 4 (drop 16 ?g)
      \<and> drop 20 ?h = drop 20 ?g"
    by (simp add: uuid_str_def Let_def length_hex32)
  then have "?h = ?g"
    using hex32_pieces [of a] hex32_pieces [of b] by simp
  then show ?thesis by (rule hex32_inj)
qed

lemma uuid_of_zero: "uuid_str (uuid4 0) = ''00000000-0000-4000-8000-000000000000''"
  by code_simp

subsection \<open>The loop\<close>

text \<open>
  One turn of the loop reads the clock at most once and the random source exactly once,
  and touches nothing else; the loop returns when every salary block does, with one record
  per raw record, the \<open>i\<close>-th made from the \<open>i\<close>-th raw record and the \<open>i\<close>-th random draw.
\<close>

lemma date_posted_frame:
  "date_posted L v w = (s, w') \<Longrightarrow>
     entropy w' = entropy w \<and> refused w' = refused w \<and> disk w' = disk w \<and> answer w' = answer w"
  by (auto simp add: date_posted_def now_def split: if_splits option.splits)

lemma convert_job_eq:
  assumes d: "date_posted L (dict_get j ''date_posted'') w = (posted, w1)"
  shows "convert_job L j w =
     and_then (salary L (dict_get j ''min_amount'') (dict_get j ''max_amount'')) (\<lambda>sal.
        Inr (cleansheet_job L j (uuid_str (uuid4 (shd (entropy w1)))) sal posted,
             w1\<lparr>entropy := stl (entropy w1)\<rparr>))"
  unfolding convert_job_def urandom16_def d by simp

lemma convert_job_Inr:
  assumes "convert_job L j w = Inr (c, w')"
  shows "\<exists>sal posted.
           salary L (dict_get j ''min_amount'') (dict_get j ''max_amount'') = Inr sal
         \<and> posted = fst (date_posted L (dict_get j ''date_posted'') w)
         \<and> c = cleansheet_job L j (uuid_str (uuid4 (shd (entropy w)))) sal posted
         \<and> entropy w' = stl (entropy w) \<and> refused w' = refused w \<and> disk w' = disk w
         \<and> answer w' = answer w"
proof -
  obtain posted w1 where d: "date_posted L (dict_get j ''date_posted'') w = (posted, w1)"
    by (cases "date_posted L (dict_get j ''date_posted'') w")
  note fr = date_posted_frame [OF d]
  note eq = convert_job_eq [OF d]
  show ?thesis
  proof (cases "salary L (dict_get j ''min_amount'') (dict_get j ''max_amount'')")
    case (Inl e)
    with assms eq show ?thesis by (simp add: and_then_def)
  next
    case (Inr sal)
    with assms eq have c: "c = cleansheet_job L j (uuid_str (uuid4 (shd (entropy w1)))) sal posted"
      and w': "w' = w1\<lparr>entropy := stl (entropy w1)\<rparr>"
      by (simp_all add: and_then_def)
    have "posted = fst (date_posted L (dict_get j ''date_posted'') w)" by (simp add: d)
    with Inr c w' fr show ?thesis by simp
  qed
qed

lemma convert_job_total:
  assumes "salary L (dict_get j ''min_amount'') (dict_get j ''max_amount'') = Inr sal"
  shows "\<exists>c w'. convert_job L j w = Inr (c, w')"
proof -
  obtain posted w1 where d: "date_posted L (dict_get j ''date_posted'') w = (posted, w1)"
    by (cases "date_posted L (dict_get j ''date_posted'') w")
  show ?thesis by (simp add: convert_job_eq [OF d] assms and_then_def)
qed

lemma convert_all_Inr:
  "convert_all L jobs w = Inr (recs, w') \<Longrightarrow>
     length recs = length jobs
   \<and> entropy w' = sdrop (length jobs) (entropy w)
   \<and> refused w' = refused w \<and> disk w' = disk w \<and> answer w' = answer w
   \<and> (\<forall>i<length jobs. \<exists>sal posted.
          salary L (dict_get (jobs ! i) ''min_amount'') (dict_get (jobs ! i) ''max_amount'') = Inr sal
        \<and> recs ! i = cleansheet_job L (jobs ! i) (uuid_str (uuid4 (entropy w !! i))) sal posted)"
proof (induction jobs arbitrary: w recs w')
  case Nil
  then show ?case by simp
next
  case (Cons j js)
  from Cons.prems obtain c w1 where c: "convert_job L j w = Inr (c, w1)"
    by (cases "convert_job L j w") (auto simp add: and_then_def)
  with Cons.prems obtain cs where cs: "convert_all L js w1 = Inr (cs, w')" and r: "recs = c # cs"
    by (cases "convert_all L js w1") (auto simp add: and_then_def)
  from convert_job_Inr [OF c] obtain sal posted where
    j: "salary L (dict_get j ''min_amount'') (dict_get j ''max_amount'') = Inr sal"
       "c = cleansheet_job L j (uuid_str (uuid4 (shd (entropy w)))) sal posted"
       "entropy w1 = stl (entropy w)" "refused w1 = refused w" "disk w1 = disk w"
       "answer w1 = answer w"
    by blast
  note ih = Cons.IH [OF cs]
  have "\<exists>sal posted.
          salary L (dict_get ((j # js) ! i) ''min_amount'') (dict_get ((j # js) ! i) ''max_amount'') = Inr sal
        \<and> recs ! i = cleansheet_job L ((j # js) ! i) (uuid_str (uuid4 (entropy w !! i))) sal posted"
    if "i < length (j # js)" for i
  proof (cases i)
    case 0
    with j r show ?thesis by auto
  next
    case (Suc k)
    with that have "k < length js" by simp
    with ih obtain sal' posted' where
      "salary L (dict_get (js ! k) ''min_amount'') (dict_get (js ! k) ''max_amount'') = Inr sal'"
      "cs ! k = cleansheet_job L (js ! k) (uuid_str (uuid4 (entropy w1 !! k))) sal' posted'"
      by blast
    with Suc r j(3) show ?thesis by auto
  qed
  with ih r j show ?case by simp
qed

lemma convert_all_total:
  "list_all (\<lambda>j. \<exists>sal. salary L (dict_get j ''min_amount'') (dict_get j ''max_amount'') = Inr sal) jobs
   \<Longrightarrow> \<exists>recs w'. convert_all L jobs w = Inr (recs, w')"
proof (induction jobs arbitrary: w)
  case Nil
  then show ?case by simp
next
  case (Cons j js)
  then obtain sal where "salary L (dict_get j ''min_amount'') (dict_get j ''max_amount'') = Inr sal"
    by auto
  from convert_job_total [OF this] obtain c w1 where c: "convert_job L j w = Inr (c, w1)"
    by blast
  from Cons obtain cs w2 where "convert_all L js w1 = Inr (cs, w2)" by fastforce
  with c show ?case by (simp add: and_then_def)
qed

lemma export_jobs_writes:
  assumes "jobs \<noteq> []"
    and "convert_all L jobs (snd (now w)) = Inr (recs, w1)"
    and "export_filename term w \<notin> refused w"
  shows "export_jobs L jobs term w =
           Inr (w1\<lparr>disk := (disk w1)(export_filename term w \<mapsto> JArr (map JObj recs))\<rparr>)"
proof -
  have "refused w1 = refused (snd (now w))" using convert_all_Inr [OF assms(2)] by simp
  then have "refused w1 = refused w" by (simp add: now_def)
  with assms show ?thesis
    by (simp add: export_jobs_def and_then_def split_beta Let_def now_def)
qed

subsection \<open>The exported records\<close>

lemma salary_returns_iff:
  "salary_returns L j \<longleftrightarrow>
     (\<exists>sal. salary L (dict_get j ''min_amount'') (dict_get j ''max_amount'') = Inr sal)"
  by (simp add: salary_returns_def split: sum.splits)

lemma export_jobs_result:
  assumes "jobs \<noteq> []" and "list_all (salary_returns L) jobs"
    and "export_filename term w \<notin> refused w"
  shows "\<exists>recs w'. export_jobs L jobs term w = Inr w'
           \<and> disk w' (export_filename term w) = Some (JArr (map JObj recs))
           \<and> length recs = length jobs
           \<and> (\<forall>i<length jobs. \<exists>sal posted.
                  recs ! i = cleansheet_job L (jobs ! i) (uuid_str (uuid4 (entropy w !! i))) sal posted)"
proof -
  from assms(2) have "list_all (\<lambda>j. \<exists>sal. salary L (dict_get j ''min_amount'')
      (dict_get j ''max_amount'') = Inr sal) jobs"
    by (simp add: list_all_iff salary_returns_iff)
  from convert_all_total [OF this] obtain recs w1
    where c: "convert_all L jobs (snd (now w)) = Inr (recs, w1)" by blast
  note str = convert_all_Inr [OF c]
  have e: "entropy (snd (now w)) = entropy w" by (simp add: now_def)
  let ?w' = "w1\<lparr>disk := (disk w1)(export_filename term w \<mapsto> JArr (map JObj recs))\<rparr>"
  have "export_jobs L jobs term w = Inr ?w'"
    by (rule export_jobs_writes [OF assms(1) c assms(3)])
  moreover have "disk ?w' (export_filename term w) = Some (JArr (map JObj recs))" by simp
  moreover have "length recs = length jobs" using str by simp
  moreover have "\<exists>sal posted.
      recs ! i = cleansheet_job L (jobs ! i) (uuid_str (uuid4 (entropy w !! i))) sal posted"
    if "i < length jobs" for i
  proof -
    from str that obtain sal posted where
      "recs ! i = cleansheet_job L (jobs ! i)
         (uuid_str (uuid4 (entropy (snd (now w)) !! i))) sal posted"
      by blast
    then show ?thesis unfolding e by blast
  qed
  ultimately show ?thesis by blast
qed

lemma cleansheet_job_dom: "dom (cleansheet_job L j ident sal posted) = set export_fields"
  unfolding cleansheet_job_def export_fields_def dom_map_of_conv_image_fst by simp

lemma cleansheet_job_record:
  "is_export_record L j (cleansheet_job L j (uuid_str u) sal posted)"
  unfolding is_export_record_def
  apply (intro conjI)
  subgoal by (rule cleansheet_job_dom)
  subgoal by (simp add: cleansheet_job_def uuid_str_shaped)
  subgoal by (simp add: cleansheet_job_def)
  subgoal by (simp add: cleansheet_job_def)
  subgoal by (simp add: cleansheet_job_def)
  subgoal by (simp add: cleansheet_job_def)
  subgoal by (simp add: cleansheet_job_def)
  subgoal by (simp add: cleansheet_job_def)
  subgoal by (simp add: cleansheet_job_def)
  subgoal by (simp add: cleansheet_job_def)
  done

lemma cleansheet_job_absent:
  assumes "k \<in> set text_fields" and "j k = None"
  shows "cleansheet_job L j ident sal posted k = Some (JStr [])"
proof -
  from assms(1) consider "k = ''company''" | "k = ''title''" | "k = ''location''"
    | "k = ''description''"
    by (auto simp add: text_fields_def)
  then show ?thesis
  proof cases
    case 1
    with assms(2) show ?thesis by (simp add: cleansheet_job_def dict_get_or_empty_def)
  next
    case 2
    with assms(2) show ?thesis by (simp add: cleansheet_job_def dict_get_or_empty_def)
  next
    case 3
    with assms(2) show ?thesis by (simp add: cleansheet_job_def dict_get_or_empty_def)
  next
    case 4
    with assms(2) show ?thesis by (simp add: cleansheet_job_def dict_get_or_empty_def)
  qed
qed

lemma cleansheet_job_id: "cleansheet_job L j ident sal posted ''id'' = Some (JStr ident)"
  by (simp add: cleansheet_job_def)

lemma ids_distinct:
  assumes "length recs = n"
    and "\<forall>i<n. (recs ! i) ''id'' = Some (JStr (uuid_str (uuid4 (s !! i))))"
    and "distinct (map uuid4 (stake n s))"
  shows "distinct (map (\<lambda>r. r ''id'') recs)"
proof -
  have "map (\<lambda>r. r ''id'') recs = map (\<lambda>u. Some (JStr (uuid_str u))) (map uuid4 (stake n s))"
    using assms(1,2) by (intro nth_equalityI) simp_all
  moreover have "inj_on (\<lambda>u. Some (JStr (uuid_str u))) A" for A
    by (rule inj_onI) (simp add: uuid_str_inj)
  ultimately show ?thesis
    using assms(3) by (simp only: distinct_map)
qed

text \<open>
  What the code does for a non-empty list of raw records none of whose salary blocks
  raises, and a file name that can be written: the export returns, and the document it wrote
  is the list of one record per raw record, in the input's order; every entry has exactly the
  eleven fields, with the status \<^verbatim>\<open>Saved\<close>, no tags and an identifier of the textual form
  of a UUID; a \<^verbatim>\<open>company\<close>, \<^verbatim>\<open>title\<close>, \<^verbatim>\<open>location\<close> or \<^verbatim>\<open>description\<close> that is absent
  becomes the empty text; and the identifiers are told apart as the UUIDs of the random draws
  are.
\<close>

lemma exported_records:
  assumes "jobs \<noteq> []" and "list_all (salary_returns L) jobs"
    and "export_filename term w \<notin> refused w"
  shows "\<exists>recs w'. export_jobs L jobs term w = Inr w'
           \<and> disk w' (export_filename term w) = Some (JArr (map JObj recs))
           \<and> length recs = length jobs
           \<and> (\<forall>i<length jobs. is_export_record L (jobs ! i) (recs ! i)
                  \<and> (\<forall>k\<in>set text_fields. (jobs ! i) k = None \<longrightarrow> (recs ! i) k = Some (JStr [])))
           \<and> (distinct (map uuid4 (stake (length jobs) (entropy w)))
                  \<longrightarrow> distinct (map (\<lambda>r. r ''id'') recs))"
proof -
  from export_jobs_result [OF assms] obtain recs w' where
    r: "export_jobs L jobs term w = Inr w'"
       "disk w' (export_filename term w) = Some (JArr (map JObj recs))"
       "length recs = length jobs"
    and each: "\<forall>i<length jobs. \<exists>sal posted.
       recs ! i = cleansheet_job L (jobs ! i) (uuid_str (uuid4 (entropy w !! i))) sal posted"
    by blast
  have a: "is_export_record L (jobs ! i) (recs ! i)
      \<and> (\<forall>k\<in>set text_fields. (jobs ! i) k = None \<longrightarrow> (recs ! i) k = Some (JStr []))"
    if "i < length jobs" for i
  proof -
    from each that obtain sal posted where
      "recs ! i = cleansheet_job L (jobs ! i) (uuid_str (uuid4 (entropy w !! i))) sal posted"
      by blast
    then show ?thesis
      by (simp add: cleansheet_job_record cleansheet_job_absent)
  qed
  have ids: "\<forall>i<length jobs. (recs ! i) ''id'' = Some (JStr (uuid_str (uuid4 (entropy w !! i))))"
  proof (intro allI impI)
    fix i assume "i < length jobs"
    with each obtain sal posted where
      "recs ! i = cleansheet_job L (jobs ! i) (uuid_str (uuid4 (entropy w !! i))) sal posted"
      by blast
    then show "(recs ! i) ''id'' = Some (JStr (uuid_str (uuid4 (entropy w !! i))))"
      by (simp add: cleansheet_job_id)
  qed
  have d: "distinct (map (\<lambda>r. r ''id'') recs)"
    if "distinct (map uuid4 (stake (length jobs) (entropy w)))"
    by (rule ids_distinct [OF r(3) ids that])
  from r a d show ?thesis by blast
qed

subsection \<open>The export on two sample records\<close>

lemma sample_jobs_return: "list_all (salary_returns L) sample_jobs"
proof -
  have "salary L (PInt 100000) (PInt 150000) = Inr (spec_salary (PInt 100000) (PInt 150000))"
    by (rule salary_of_numbers) simp_all
  moreover have "salary L (PFloat NaN) (PFloat NaN) = Inr (spec_salary (PFloat NaN) (PFloat NaN))"
    by (rule salary_of_numbers) simp_all
  ultimately show ?thesis
    by (simp add: sample_jobs_def salary_returns_def dict_get_def)
qed

lemma sample_filename:
  "export_filename ''test search'' sample_world = ''test_search_20250105_090307-0500.json''"
proof -
  have b: "safe_search ''test search'' = ''test_search''"
    by (simp add: safe_search_def replace_special_def is_word_char_def py_lower_def
        strip_underscores_def char_of_eq_iff)
  have n: "default_name ''test search'' sample_now = ''test_search_20250105_090307-0500.json''"
    by (simp add: default_name_def b strftime_stamp_def tz_offset_def sample_now_def zero_pad_def
        decimal.simps digit_char_def)
  show ?thesis
    by (simp add: export_filename_def sample_world_def n resolve_filename_def ends_with_def)
qed

lemma sample_draws: "stake 2 (entropy sample_world) = [0, 1]"
  by (simp add: sample_world_def numeral_2_eq_2)

lemma sample_uuids_differ: "uuid4 0 \<noteq> uuid4 1"
  by (simp add: uuid4_def)

lemma exported_records_on_samples:
  "\<forall>L. \<exists>recs w'. export_jobs L sample_jobs ''test search'' sample_world = Inr w'
       \<and> disk w' ''test_search_20250105_090307-0500.json'' = Some (JArr (map JObj recs))
       \<and> length recs = 2
       \<and> is_export_record L (sample_jobs ! 0) (recs ! 0)
       \<and> is_export_record L (sample_jobs ! 1) (recs ! 1)
       \<and> (recs ! 1) ''company'' = Some (JStr [])
       \<and> distinct (map (\<lambda>r. r ''id'') recs)"
proof
  fix L
  have ne: "sample_jobs \<noteq> []" by (simp add: sample_jobs_def)
  have len: "length sample_jobs = 2" by (simp add: sample_jobs_def)
  have wr: "export_filename ''test search'' sample_world \<notin> refused sample_world"
    by (simp add: sample_world_def)
  have dr: "distinct (map uuid4 (stake (length sample_jobs) (entropy sample_world)))"
    using sample_uuids_differ by (simp add: len sample_draws)
  have ab: "(sample_jobs ! 1) ''company'' = None" by (simp add: sample_jobs_def)
  have tf: "''company'' \<in> set text_fields" by (simp add: text_fields_def)
  from exported_records [OF ne sample_jobs_return wr, of L] obtain recs w' where
    r: "export_jobs L sample_jobs ''test search'' sample_world = Inr w'"
       "disk w' (export_filename ''test search'' sample_world) = Some (JArr (map JObj recs))"
       "length recs = length sample_jobs"
    and each: "\<forall>i<length sample_jobs. is_export_record L (sample_jobs ! i) (recs ! i)
          \<and> (\<forall>k\<in>set text_fields. (sample_jobs ! i) k = None \<longrightarrow> (recs ! i) k = Some (JStr []))"
    and d: "distinct (map uuid4 (stake (length sample_jobs) (entropy sample_world)))
          \<longrightarrow> distinct (map (\<lambda>r. r ''id'') recs)"
    by blast
  from each len have "is_export_record L (sample_jobs ! 0) (recs ! 0)" by simp
  moreover from each len have e1: "is_export_record L (sample_jobs ! 1) (recs ! 1)
      \<and> (\<forall>k\<in>set text_fields. (sample_jobs ! 1) k = None \<longrightarrow> (recs ! 1) k = Some (JStr []))"
    by simp
  moreover from e1 ab tf have "(recs ! 1) ''company'' = Some (JStr [])" by blast
  moreover from d dr have "distinct (map (\<lambda>r. r ''id'') recs)" by blast
  moreover from r(3) len have "length recs = 2" by simp
  moreover note r(1) r(2) [unfolded sample_filename]
  ultimately show "\<exists>recs w'. export_jobs L sample_jobs ''test search'' sample_world = Inr w'
       \<and> disk w' ''test_search_20250105_090307-0500.json'' = Some (JArr (map JObj recs))
       \<and> length recs = 2
       \<and> is_export_record L (sample_jobs ! 0) (recs ! 0)
       \<and> is_export_record L (sample_jobs ! 1) (recs ! 1)
       \<and> (recs ! 1) ''company'' = Some (JStr [])
       \<and> distinct (map (\<lambda>r. r ''id'') recs)"
    by blast
qed

text \<open>
  A record whose salary block raises stops the loop, whatever was converted before it.
\<close>

lemma convert_job_raises:
  "convert_job L infinite_salary_job w = Inl OverflowError"
proof -
  obtain posted w1 where d: "date_posted L (dict_get infinite_salary_job ''date_posted'') w = (posted, w1)"
    by (cases "date_posted L (dict_get infinite_salary_job ''date_posted'') w")
  have "salary L (dict_get infinite_salary_job ''min_amount'')
          (dict_get infinite_salary_job ''max_amount'') = Inl OverflowError"
    by (simp add: infinite_salary_job_def dict_get_def salary_def salary_try_def py_and_def
        is_valid_number_def and_then_def fmt_range_def catches_def isinstance_def)
  then show ?thesis by (simp add: convert_job_eq [OF d] and_then_def)
qed

lemma convert_all_raises:
  "list_all (salary_returns L) js \<Longrightarrow>
   convert_all L (js @ infinite_salary_job # ks) w = Inl OverflowError"
proof (induction js arbitrary: w)
  case Nil
  then show ?case by (simp add: convert_job_raises and_then_def)
next
  case (Cons j js)
  then have "\<exists>sal. salary L (dict_get j ''min_amount'') (dict_get j ''max_amount'') = Inr sal"
    by (simp add: salary_returns_iff)
  then obtain sal where "salary L (dict_get j ''min_amount'') (dict_get j ''max_amount'') = Inr sal"
    by blast
  from convert_job_total [OF this] obtain c w1 where c: "convert_job L j w = Inr (c, w1)"
    by blast
  from Cons have "convert_all L (js @ infinite_salary_job # ks) w1 = Inl OverflowError" by simp
  with c show ?case by (simp add: and_then_def)
qed

text \<open>
  Claim C9 (every non-empty list is exported, one entry for each record) against the code:
  a list that holds a record whose lower salary bound is the float infinity makes
  \<^verbatim>\<open>export_jobs\<close> raise \<^verbatim>\<open>OverflowError\<close>, alone or after records that convert; no
  document is written. It is the escape of claim C3, met in the loop.
\<close>

theorem export_raises_on_infinite_salary:
  "export_jobs L [infinite_salary_job] search_term w = Inl OverflowError
   \<and> export_jobs L (sample_jobs @ [infinite_salary_job]) search_term w = Inl OverflowError"
proof -
  have "convert_all L ([] @ infinite_salary_job # []) w' = Inl OverflowError" for w'
    by (rule convert_all_raises) simp
  moreover have "convert_all L (sample_jobs @ infinite_salary_job # []) w' = Inl OverflowError" for w'
    by (rule convert_all_raises) (rule sample_jobs_return)
  ultimately show ?thesis
    by (simp add: export_jobs_def and_then_def split_beta Let_def)
qed

lemma list_is_no_export_document: "\<not> is_export_document (Some (JArr entries)) rs"
  by (simp add: is_export_document_def)

text \<open>
  Claim C1 (the file holds an object with \<^verbatim>\<open>exportType\<close> and \<^verbatim>\<open>jobs\<close>) against the code:
  whenever the export writes, the document in the file is the bare list of the converted
  records, one per raw record, and so it is no export document in the specification's
  sense, whatever records one reads into it.
\<close>

theorem export_writes_bare_list:
  assumes "jobs \<noteq> []" and "list_all (salary_returns L) jobs"
    and "export_filename term w \<notin> refused w"
  shows "\<exists>recs w'. export_jobs L jobs term w = Inr w'
           \<and> disk w' (export_filename term w) = Some (JArr (map JObj recs))
           \<and> length recs = length jobs
           \<and> (\<forall>rs. \<not> is_export_document (disk w' (export_filename term w)) rs)"
proof -
  from export_jobs_result [OF assms] obtain recs w' where
    r: "export_jobs L jobs term w = Inr w'"
       "disk w' (export_filename term w) = Some (JArr (map JObj recs))"
       "length recs = length jobs"
    by blast
  from r(2) have "\<forall>rs. \<not> is_export_document (disk w' (export_filename term w)) rs"
    by (simp add: list_is_no_export_document)
  with r show ?thesis by blast
qed

theorem export_writes_bare_list_witness:
  "\<forall>L. \<exists>recs w'. export_jobs L sample_jobs ''test search'' sample_world = Inr w'
       \<and> disk w' ''test_search_20250105_090307-0500.json'' = Some (JArr (map JObj recs))
       \<and> length recs = 2
       \<and> \<not> is_export_document (disk w' ''test_search_20250105_090307-0500.json'') recs"
proof
  fix L
  have ne: "sample_jobs \<noteq> []" by (simp add: sample_jobs_def)
  have len: "length sample_jobs = 2" by (simp add: sample_jobs_def)
  have wr: "export_filename ''test search'' sample_world \<notin> refused sample_world"
    by (simp add: sample_world_def)
  from export_writes_bare_list [OF ne sample_jobs_return wr, of L] obtain recs w' where
    r: "export_jobs L sample_jobs ''test search'' sample_world = Inr w'"
       "disk w' (export_filename ''test search'' sample_world) = Some (JArr (map JObj recs))"
       "length recs = length sample_jobs"
       "\<forall>rs. \<not> is_export_document (disk w' (export_filename ''test search'' sample_world)) rs"
    by blast
  from r(3) len have l2: "length recs = 2" by simp
  from r(4) have "\<not> is_export_document (disk w' (export_filename ''test search'' sample_world)) recs"
    by blast
  with r(1) r(2) l2
  show "\<exists>recs w'. export_jobs L sample_jobs ''test search'' sample_world = Inr w'
       \<and> disk w' ''test_search_20250105_090307-0500.json'' = Some (JArr (map JObj recs))
       \<and> length recs = 2
       \<and> \<not> is_export_document (disk w' ''test_search_20250105_090307-0500.json'') recs"
    unfolding sample_filename by blast
qed

end
